theory Spec2Isabelle
  imports Main "HOL-Library.Word"
begin

unbundle bit_operations_syntax

section \<open>libmatfile: the tape and the MAT-file element parser\<close>

text \<open>
  The embedding follows \<^verbatim>\<open>src/tape.c\<close> and \<^verbatim>\<open>src/matfile.c\<close>. Conventions:
  \<^item> \<^verbatim>\<open>size_t\<close> is 64 bits wide and \<^verbatim>\<open>int\<close> is 32 bits wide (LP64); the host is
    little-endian, which fixes how the union of the small and the large tag overlays
    the same eight bytes.
  \<^item> A pointer into a buffer is the list of bytes that starts where it points, so
    \<^verbatim>\<open>bytes + offset\<close> is \<open>drop offset mem\<close>. The length argument that travels with a
    pointer is a separate value, exactly as in the C signatures.
  \<^item> A read or a write outside the memory that backs a pointer, and freeing a block a
    second time, is undefined behaviour in C; the model stops there with \<open>Inl Fault\<close>.
    A function that returns the null pointer (or a non-zero status) returns
    \<open>Inl Null\<close>.
  \<^item> The allocator is that of glibc with memory to spare: \<^verbatim>\<open>malloc\<close> returns a block, for
    a request of no bytes too, and so does \<^verbatim>\<open>realloc\<close>, except that \<^verbatim>\<open>realloc(p, 0)\<close> on a
    block \<^verbatim>\<open>p\<close> frees it and returns the null pointer. A pointer that may be null is an
    \<open>option\<close>. The bytes of a fresh allocation are indeterminate: they are supplied by a
    function \<open>junk\<close> that no theorem constrains.
  \<^item> Signed overflow of \<^verbatim>\<open>int\<close> wraps around (two's complement).
\<close>

type_synonym byte = "8 word"
type_synonym size_t = "64 word"

datatype error = Null | Fault

subsection \<open>Memory\<close>

definition read_bytes :: "byte list \<Rightarrow> nat \<Rightarrow> nat \<Rightarrow> error + byte list" where
  "read_bytes mem off n =
     (if off + n \<le> length mem then Inr (take n (drop off mem)) else Inl Fault)"

text \<open>\<^verbatim>\<open>realloc(p, n)\<close>: \<^verbatim>\<open>malloc(n)\<close> when \<^verbatim>\<open>p\<close> is null; null, with the block freed, when
  \<^verbatim>\<open>n\<close> is 0; otherwise the old contents up to the smaller of the two sizes, then
  indeterminate bytes.\<close>

definition realloc ::
  "(nat \<Rightarrow> byte) \<Rightarrow> byte list option \<Rightarrow> nat \<Rightarrow> byte list option" where
  "realloc junk p n =
     (case p of
        None \<Rightarrow> Some (map junk [0 ..< n])
      | Some xs \<Rightarrow> if n = 0 then None else Some (take n xs @ map junk [length xs ..< n]))"

text \<open>Reads and writes through a pointer \<open>ptr\<close> into a block: both may be null.\<close>

definition read_at :: "byte list option \<Rightarrow> nat option \<Rightarrow> nat \<Rightarrow> error + byte list" where
  "read_at block ptr n =
     (case (block, ptr) of
        (Some mem, Some off) \<Rightarrow>
          if off + n \<le> length mem then Inr (take n (drop off mem)) else Inl Fault
      | _ \<Rightarrow> Inl Fault)"

definition write_at ::
  "byte list option \<Rightarrow> nat option \<Rightarrow> byte list \<Rightarrow> error + byte list" where
  "write_at block ptr bs =
     (case (block, ptr) of
        (Some mem, Some off) \<Rightarrow>
          if off + length bs \<le> length mem
          then Inr (take off mem @ bs @ drop (off + length bs) mem)
          else Inl Fault
      | _ \<Rightarrow> Inl Fault)"

text \<open>Little-endian loads of 32 and 64 bits.\<close>

fun le_word :: "byte list \<Rightarrow> 'a::len word" where
  "le_word [] = 0"
| "le_word (b # bs) = ucast b OR push_bit 8 (le_word bs)"

definition le32 :: "byte list \<Rightarrow> 32 word" where
  "le32 bs = le_word (take 4 bs)"

definition le64 :: "byte list \<Rightarrow> 64 word" where
  "le64 bs = le_word (take 8 bs)"

subsection \<open>The tape (\<^verbatim>\<open>tape.c\<close>)\<close>

record tape =
  elems :: "byte list option"
  cur_length :: size_t
  max_length :: size_t

definition tape_create :: "(nat \<Rightarrow> byte) \<Rightarrow> size_t \<Rightarrow> tape" where
  "tape_create junk len =
     \<lparr>elems = Some (map junk [0 ..< unat len]), cur_length = 0, max_length = len\<rparr>"

definition tape_pop :: "tape \<Rightarrow> size_t \<Rightarrow> tape" where
  "tape_pop t sz =
     (if cur_length t > sz then t\<lparr>cur_length := cur_length t - sz\<rparr>
      else t\<lparr>cur_length := 0\<rparr>)"

text \<open>\<^verbatim>\<open>tape_push\<close> returns the reservation as its offset from \<^verbatim>\<open>tape->elems\<close> (null when
  that is null), together with the updated tape. The test after \<^verbatim>\<open>realloc\<close> reads
  \<^verbatim>\<open>if (!elems)\<close> in the source, which names no variable in scope; it stands for
  \<^verbatim>\<open>!tape->elems\<close>.\<close>

definition tape_push :: "(nat \<Rightarrow> byte) \<Rightarrow> tape \<Rightarrow> size_t \<Rightarrow> nat option \<times> tape" where
  "tape_push junk t sz =
     (let grow = cur_length t + sz > max_length t;
          t1 = (if grow
                then t\<lparr>max_length := max_length t * 2,
                       elems := realloc junk (elems t) (unat (max_length t * 2))\<rparr>
                else t)
      in if grow \<and> elems t1 = None then (None, t1)
         else (case elems t1 of None \<Rightarrow> None | Some block \<Rightarrow> Some (unat (cur_length t1)),
               t1\<lparr>cur_length := cur_length t1 + sz\<rparr>))"

text \<open>\<^verbatim>\<open>tape_purge\<close> hands out the buffer and frees the tape object: the second
  component is what is left behind the handle, \<open>None\<close>. When \<^verbatim>\<open>realloc\<close> returns null it has
  freed the block that \<^verbatim>\<open>tape->elems\<close> still points to, and \<^verbatim>\<open>tape_destroy\<close> frees it again.
  A null \<^verbatim>\<open>tape->elems\<close> that is not reallocated is returned as it is.\<close>

definition tape_purge ::
  "(nat \<Rightarrow> byte) \<Rightarrow> tape \<Rightarrow> (error + byte list) \<times> tape option" where
  "tape_purge junk t =
     (let elements =
            (if cur_length t < max_length t
             then (case realloc junk (elems t) (unat (cur_length t)) of
                     None \<Rightarrow> Inl Fault
                   | Some block \<Rightarrow> Inr block)
             else (case elems t of None \<Rightarrow> Inl Null | Some block \<Rightarrow> Inr block))
      in (elements, None))"

text \<open>A run of pushes and pops, for statements about sequences of operations.\<close>

datatype tape_op = Push size_t | Pop size_t

fun tape_apply :: "(nat \<Rightarrow> byte) \<Rightarrow> tape \<Rightarrow> tape_op \<Rightarrow> tape" where
  "tape_apply junk t (Push n) = snd (tape_push junk t n)"
| "tape_apply junk t (Pop n) = tape_pop t n"

definition tape_run :: "(nat \<Rightarrow> byte) \<Rightarrow> tape \<Rightarrow> tape_op list \<Rightarrow> tape" where
  "tape_run junk t ops = foldl (tape_apply junk) t ops"

text \<open>What the callers of the tape rely on: the used length is within the capacity, and
  the capacity is the size of the allocation.\<close>

definition tape_wf :: "tape \<Rightarrow> bool" where
  "tape_wf t =
     (cur_length t \<le> max_length t
      \<and> (\<exists>block. elems t = Some block \<and> length block = unat (max_length t)))"

subsection \<open>Data elements and the small/large tag (\<^verbatim>\<open>matfile.h\<close>)\<close>

datatype numerical_part = Uninitialised | NullPart | PartData "byte list"

record matfile_array =
  flags :: "64 word"
  dims :: "32 word list"
  name :: "byte list"
  nodims :: size_t
  name_length :: size_t
  pr :: numerical_part
  pi :: numerical_part

text \<open>The anonymous union of \<^verbatim>\<open>matfile_data_element_large_t\<close>: a null pointer, a pointer
  to raw bytes, or a pointer to an array.\<close>

datatype payload = NullData | Data "byte list" | Array matfile_array

text \<open>A data element holds the large view of the tag; the small view is read off the
  same bytes.\<close>

record element =
  large_type :: "32 word"
  large_size :: "32 word"
  large_data :: payload
  large_noelements :: size_t

definition small_size :: "element \<Rightarrow> 16 word" where
  "small_size e = ucast (large_type e)"

definition small_type :: "element \<Rightarrow> 16 word" where
  "small_type e = ucast (drop_bit 16 (large_type e))"

definition small_data :: "element \<Rightarrow> 32 word" where
  "small_data e = large_size e"

text \<open>\<^verbatim>\<open>memcpy(elem, bytes + offset, 8)\<close> followed by the two assignments that clear
  \<^verbatim>\<open>data\<close> and \<^verbatim>\<open>noelements\<close>.\<close>

definition load_tag :: "byte list \<Rightarrow> element" where
  "load_tag bs = \<lparr>large_type = le32 bs, large_size = le32 (drop 4 bs),
                  large_data = NullData, large_noelements = 0\<rparr>"

definition IS_SMALL :: "16 word \<Rightarrow> 16 word \<Rightarrow> bool" where
  "IS_SMALL sz ty = (sz \<noteq> 0 \<and> ty \<noteq> 0)"

definition matfile_is_small :: "element \<Rightarrow> int" where
  "matfile_is_small e = (if IS_SMALL (small_size e) (small_type e) then 1 else 0)"

definition matfile_is_large :: "element \<Rightarrow> int" where
  "matfile_is_large e = (if \<not> IS_SMALL (small_size e) (small_type e) then 1 else 0)"

subsection \<open>Type codes, array classes and the size table (\<^verbatim>\<open>matfile.h\<close>, \<^verbatim>\<open>matfile.c\<close>)\<close>

abbreviation MFDT_INT8 :: "32 word" where "MFDT_INT8 \<equiv> 1"
abbreviation MFDT_INT32 :: "32 word" where "MFDT_INT32 \<equiv> 5"
abbreviation MFDT_UINT32 :: "32 word" where "MFDT_UINT32 \<equiv> 6"
abbreviation MFDT_SINGLE :: "32 word" where "MFDT_SINGLE \<equiv> 7"
abbreviation MFDT_DOUBLE :: "32 word" where "MFDT_DOUBLE \<equiv> 9"
abbreviation MFDT_INT64 :: "32 word" where "MFDT_INT64 \<equiv> 12"
abbreviation MFDT_UINT64 :: "32 word" where "MFDT_UINT64 \<equiv> 13"
abbreviation MFDT_MATRIX :: "32 word" where "MFDT_MATRIX \<equiv> 14"
abbreviation MFDT_COMPRESSED :: "32 word" where "MFDT_COMPRESSED \<equiv> 15"
abbreviation MFDT_COUNT :: "32 word" where "MFDT_COUNT \<equiv> 19"

abbreviation MFMX_CELL_CLASS :: "64 word" where "MFMX_CELL_CLASS \<equiv> 1"
abbreviation MFMX_STRUCT_CLASS :: "64 word" where "MFMX_STRUCT_CLASS \<equiv> 2"
abbreviation MFMX_OBJECT_CLASS :: "64 word" where "MFMX_OBJECT_CLASS \<equiv> 3"
abbreviation MFMX_CHAR_CLASS :: "64 word" where "MFMX_CHAR_CLASS \<equiv> 4"
abbreviation MFMX_SPARSE_CLASS :: "64 word" where "MFMX_SPARSE_CLASS \<equiv> 5"
abbreviation MFMX_DOUBLE_CLASS :: "64 word" where "MFMX_DOUBLE_CLASS \<equiv> 6"
abbreviation MFMX_UINT64_CLASS :: "64 word" where "MFMX_UINT64_CLASS \<equiv> 15"

abbreviation MF_ALIGNMENT :: nat where "MF_ALIGNMENT \<equiv> 8"

definition data_type_size :: "size_t list" where
  "data_type_size = [1, 1, 2, 2, 4, 4, 4, 0, 8, 0, 0, 8, 8, 0, 0, 0, 0, 0]"

definition matfile_is_numerical :: "element \<Rightarrow> int" where
  "matfile_is_numerical e =
     (let ty = large_type e
      in if (ty \<ge> MFDT_INT8 \<and> ty \<le> MFDT_SINGLE) \<or> ty = MFDT_DOUBLE
            \<or> ty = MFDT_INT64 \<or> ty = MFDT_UINT64
         then 1 else 0)"

subsection \<open>The numeric array assembler (\<^verbatim>\<open>matfile.c\<close>)\<close>

text \<open>The element count of \<^verbatim>\<open>parse_numerical_part\<close>: the loop
  \<^verbatim>\<open>for (i = 0; i != nodims; ++i) noelems *= dims[i]\<close> on a 32-bit \<^verbatim>\<open>int\<close>.\<close>

definition noelems_of :: "32 word list \<Rightarrow> 32 word" where
  "noelems_of ds = foldl (\<lambda>noelems d. noelems * d) 1 ds"

text \<open>\<^verbatim>\<open>parse_numerical_part\<close> returns the pointer to the rest of the data as the number
  of bytes it lies behind \<^verbatim>\<open>data\<close>, together with the part it has filled in. The length
  behind \<^verbatim>\<open>len\<close> is read and never written.\<close>

definition parse_numerical_part ::
  "matfile_array \<Rightarrow> byte list \<Rightarrow> size_t \<Rightarrow> error + (numerical_part \<times> nat)" where
  "parse_numerical_part array mem len =
     (if unat len < 8 then Inl Null
      else case read_bytes mem 0 8 of
        Inl e \<Rightarrow> Inl e
      | Inr tag \<Rightarrow>
          let elem = load_tag tag in
          if unat len < 8 + unat (large_size elem) then Inl Null
          else if matfile_is_numerical elem = 0 then Inl Null
          else if length (dims array) < unat (nodims array) then Inl Fault
          else
            let noelems = noelems_of (take (unat (nodims array)) (dims array));
                type_size = data_type_size ! (unat (large_type elem) - 1);
                sz = type_size * scast noelems
            in if ucast (large_size elem) \<noteq> sz then Inl Null
               else case read_bytes mem 8 (unat sz) of
                 Inl e \<Rightarrow> Inl e
               | Inr bs \<Rightarrow> Inr (PartData bs, 8 + unat sz))"

definition parse_numerical_array ::
  "matfile_array \<Rightarrow> byte list \<Rightarrow> size_t \<Rightarrow> error + matfile_array" where
  "parse_numerical_array array mem len =
     (let array = array\<lparr>pr := NullPart, pi := NullPart\<rparr>
      in case parse_numerical_part array mem len of
        Inl e \<Rightarrow> Inl e
      | Inr (re, off) \<Rightarrow>
          let array = array\<lparr>pr := re\<rparr>
          in if of_nat off = len then Inr array
             else case parse_numerical_part array (drop off mem) len of
               Inl e \<Rightarrow> Inl e
             | Inr (im, off') \<Rightarrow> Inr (array\<lparr>pi := im\<rparr>))"

text \<open>\<^verbatim>\<open>memcpy\<close> of the dimension payload into an \<^verbatim>\<open>int32_t\<close> array.\<close>

fun le32_list :: "byte list \<Rightarrow> 32 word list" where
  "le32_list (a # b # c # d # rest) = le_word [a, b, c, d] # le32_list rest"
| "le32_list rest = []"

definition padding_of :: "32 word \<Rightarrow> nat" where
  "padding_of sz = (MF_ALIGNMENT - unat sz mod MF_ALIGNMENT) mod MF_ALIGNMENT"

text \<open>The name is copied into \<^verbatim>\<open>malloc(elem->large.size + 1)\<close>, a sum of 32-bit unsigned
  integers: a name of \<open>2\<^sup>3\<^sup>2 - 1\<close> bytes is copied into an allocation of no bytes.\<close>

definition parse_array :: "byte list \<Rightarrow> size_t \<Rightarrow> error + matfile_array" where
  "parse_array mem len =
     (if unat len < 0 + 8 + 8 then Inl Null
      else case read_bytes mem 0 8 of Inl e \<Rightarrow> Inl e | Inr tag1 \<Rightarrow>
        let elem = load_tag tag1 in
        if large_type elem \<noteq> MFDT_UINT32 then Inl Null
        else if large_size elem \<noteq> 8 then Inl Null
        else case read_bytes mem 8 8 of Inl e \<Rightarrow> Inl e | Inr fl \<Rightarrow>
          if unat len < 16 + 8 + 2 * 4 then Inl Null
          else case read_bytes mem 16 8 of Inl e \<Rightarrow> Inl e | Inr tag2 \<Rightarrow>
            let elem = load_tag tag2 in
            if large_type elem \<noteq> MFDT_INT32 then Inl Null
            else if large_size elem mod 4 \<noteq> 0 then Inl Null
            else if unat len < 24 + unat (large_size elem) then Inl Null
            else case read_bytes mem 24 (unat (large_size elem)) of
              Inl e \<Rightarrow> Inl e
            | Inr dimbytes \<Rightarrow>
                let offset = 24 + unat (large_size elem) + padding_of (large_size elem);
                    array0 = \<lparr>flags = le64 fl, dims = le32_list dimbytes, name = [],
                              nodims = ucast (large_size elem div 4), name_length = 0,
                              pr = Uninitialised, pi = Uninitialised\<rparr>
                in if unat len < offset + 8 then Inl Null
                   else case read_bytes mem offset 8 of Inl e \<Rightarrow> Inl e | Inr tag3 \<Rightarrow>
                     let elem = load_tag tag3; offset = offset + 8 in
                     if large_type elem \<noteq> MFDT_INT8 then Inl Null
                     else if unat len < offset + unat (large_size elem) then Inl Null
                     else if large_size elem + 1 = 0 then Inl Fault
                     else case read_bytes mem offset (unat (large_size elem)) of
                       Inl e \<Rightarrow> Inl e
                     | Inr namebytes \<Rightarrow>
                         let array = array0\<lparr>name_length := ucast (large_size elem),
                                            name := namebytes @ [0]\<rparr>;
                             offset = offset + unat (large_size elem)
                                      + padding_of (large_size elem);
                             rest_size = len - of_nat offset;
                             rest = drop offset mem;
                             array_type = flags array AND 0xff
                         in if array_type \<in> {MFMX_CELL_CLASS, MFMX_STRUCT_CLASS,
                                 MFMX_OBJECT_CLASS, MFMX_CHAR_CLASS, MFMX_SPARSE_CLASS}
                            then Inr array
                            else if MFMX_DOUBLE_CLASS \<le> array_type
                                    \<and> array_type \<le> MFMX_UINT64_CLASS
                            then parse_numerical_array array rest rest_size
                            else Inl Null)"

subsection \<open>The decompression adapter (\<^verbatim>\<open>matfile.c\<close>)\<close>

text \<open>zlib is outside the repository; the parser is parametrised by it. A stream state
  \<open>'z\<close> is created by \<^verbatim>\<open>inflateInit\<close> from the input bytes the stream is told about;
  \<^verbatim>\<open>inflate\<close> is given the free space at \<^verbatim>\<open>next_out\<close> and returns its status, the bytes it
  has written there and the new state; \<^verbatim>\<open>avail_in\<close> reads the field of that name.\<close>

record 'z zlib =
  inflateInit :: "byte list \<Rightarrow> int \<times> 'z"
  inflate :: "'z \<Rightarrow> nat \<Rightarrow> int \<times> byte list \<times> 'z"
  avail_in :: "'z \<Rightarrow> nat"
  inflateEnd :: "'z \<Rightarrow> int"

abbreviation Z_OK :: int where "Z_OK \<equiv> 0"

text \<open>\<open>input\<close> is the memory behind \<^verbatim>\<open>element->large.data\<close>; the stream is told that
  \<^verbatim>\<open>element->large.size\<close> bytes are there. \<^verbatim>\<open>inflate\<close> answers \<^verbatim>\<open>Z_STREAM_ERROR\<close> to a null
  \<^verbatim>\<open>next_out\<close>. On success the element carries the inner type and size and points to the
  purged tape buffer. The function is cut in two behind the \<^verbatim>\<open>memmove\<close>:
  \<open>inflate_rest\<close> is the part from the comment \<^verbatim>\<open>Inflate rest of the data\<close> on.\<close>

definition purged_into :: "element \<Rightarrow> error + byte list \<Rightarrow> error + element" where
  "purged_into element purged =
     (case purged of
        Inl Fault \<Rightarrow> Inl Fault
      | Inl Null \<Rightarrow> Inr (element\<lparr>large_data := NullData\<rparr>)
      | Inr block \<Rightarrow> Inr (element\<lparr>large_data := Data block\<rparr>))"

definition inflate_rest ::
  "'z zlib \<Rightarrow> (nat \<Rightarrow> byte) \<Rightarrow> 'z \<Rightarrow> tape \<Rightarrow> element \<Rightarrow> size_t \<Rightarrow> size_t \<Rightarrow> size_t
     \<Rightarrow> error + element" where
  "inflate_rest zl junk stream tape element buffer_size avail_size rest_size =
     (let tape = tape_pop tape buffer_size;
          (p, tape) = tape_push junk tape avail_size;
          (next_out, tape) = tape_push junk tape rest_size;
          avail_out = unat (ucast rest_size :: 32 word)
      in if next_out = None then Inl Null
         else case inflate zl stream avail_out of (code, out2, stream) \<Rightarrow>
           case write_at (elems tape) next_out (take avail_out out2) of
             Inl e \<Rightarrow> Inl e
           | Inr mem3 \<Rightarrow>
               if code < Z_OK then Inl Null
               else if avail_in zl stream \<noteq> 0 then Inl Null
               else if inflateEnd zl stream \<noteq> Z_OK then Inl Null
               else purged_into element (fst (tape_purge junk (tape\<lparr>elems := Some mem3\<rparr>))))"

definition decompress_data_element ::
  "'z zlib \<Rightarrow> (nat \<Rightarrow> byte) \<Rightarrow> byte list \<Rightarrow> element \<Rightarrow> error + element" where
  "decompress_data_element zl junk input element =
     (let tag_size = 8 :: size_t;
          buffer_size = ucast (large_size element OR 0x80) :: size_t;
          tape = tape_create junk buffer_size;
          (base, tape) = tape_push junk tape tag_size;
          (data, tape) = tape_push junk tape (buffer_size - tag_size)
      in case read_bytes input 0 (unat (large_size element)) of
        Inl e \<Rightarrow> Inl e
      | Inr next_in \<Rightarrow>
          case inflateInit zl next_in of (code, stream) \<Rightarrow>
          if code < Z_OK then Inl Null
          else if base = None then Inl Null
          else case inflate zl stream (unat buffer_size) of (code, out1, stream) \<Rightarrow>
          case write_at (elems tape) base (take (unat buffer_size) out1) of
            Inl e \<Rightarrow> Inl e
          | Inr mem1 \<Rightarrow>
              if code < Z_OK then Inl Null
              else case read_at (Some mem1) base 8 of
                Inl e \<Rightarrow> Inl e
              | Inr tag \<Rightarrow>
                  let subel = load_tag tag in
                  if \<not> (large_type subel \<ge> MFDT_INT8 \<and> large_type subel < MFDT_COUNT)
                  then Inl Null
                  else
                    let element = element\<lparr>large_type := large_type subel,
                                           large_size := large_size subel\<rparr>;
                        avail_out = unat buffer_size - length (take (unat buffer_size) out1);
                        avail_size = buffer_size - tag_size - of_nat avail_out;
                        rest_size = ucast (large_size element) - avail_size
                    in case read_at (Some mem1) data (unat avail_size) of
                      Inl e \<Rightarrow> Inl e
                    | Inr moved \<Rightarrow>
                        case write_at (Some mem1) base moved of
                          Inl e \<Rightarrow> Inl e
                        | Inr mem2 \<Rightarrow>
                            inflate_rest zl junk stream (tape\<lparr>elems := Some mem2\<rparr>) element
                              buffer_size avail_size rest_size)"

subsection \<open>The element parser (\<^verbatim>\<open>matfile.c\<close>)\<close>

text \<open>One pass through the body of the loop of \<^verbatim>\<open>parse_data_elements\<close> behind the
  reservation of the element, started with the cursor at \<open>offset\<close>: the element written
  to the tape and the cursor after \<^verbatim>\<open>offset += data_size\<close>. A null result of \<^verbatim>\<open>parse_array\<close>
  is stored in the element like any other pointer; a null buffer is memory of no
  bytes.\<close>

definition parse_data_element ::
  "'z zlib \<Rightarrow> (nat \<Rightarrow> byte) \<Rightarrow> byte list \<Rightarrow> nat \<Rightarrow> error + (element \<times> nat)" where
  "parse_data_element zl junk bytes offset0 =
     (case read_bytes bytes offset0 8 of
        Inl e \<Rightarrow> Inl e
      | Inr tag \<Rightarrow>
          let elem = load_tag tag; offset = offset0 + 8 in
          if matfile_is_small elem \<noteq> 0 then Inr (elem, offset)
          else
            let data_size = unat (large_size elem); data_type = large_type elem in
            if \<not> (data_type \<ge> MFDT_INT8 \<and> data_type < MFDT_COUNT) then Inl Null
            else
              case (if large_type elem = MFDT_COMPRESSED
                    then (case decompress_data_element zl junk (drop offset bytes) elem of
                            Inl e \<Rightarrow> Inl e
                          | Inr elem' \<Rightarrow>
                              Inr (elem',
                                   (case large_data elem' of Data b \<Rightarrow> b | _ \<Rightarrow> []),
                                   data_size))
                    else
                      let residue = data_size mod MF_ALIGNMENT
                      in Inr (elem, drop offset bytes,
                              data_size + (if residue \<noteq> 0 then MF_ALIGNMENT - residue else 0)))
              of
                Inl e \<Rightarrow> Inl e
              | Inr (elem, buffer, data_size) \<Rightarrow>
                  case (if large_type elem = MFDT_MATRIX
                        then (case parse_array buffer (ucast (large_size elem)) of
                                Inl Fault \<Rightarrow> Inl Fault
                              | Inl Null \<Rightarrow> Inr (elem\<lparr>large_data := NullData\<rparr>)
                              | Inr array \<Rightarrow> Inr (elem\<lparr>large_data := Array array\<rparr>))
                        else (case read_bytes buffer 0 data_size of
                                Inl e \<Rightarrow> Inl e
                              | Inr copied \<Rightarrow> Inr (elem\<lparr>large_data := Data copied\<rparr>)))
                  of
                    Inl e \<Rightarrow> Inl e
                  | Inr elem \<Rightarrow> Inr (elem, offset + data_size))"

text \<open>Every pass moves the cursor forward, which is what makes the loop terminate.\<close>

lemma parse_data_element_advances:
  "parse_data_element zl junk bytes offset = Inr (e, offset') \<Longrightarrow> offset + 8 \<le> offset'"
  unfolding parse_data_element_def
  by (auto simp: Let_def split: sum.splits if_splits prod.splits error.splits)

text \<open>The loop \<^verbatim>\<open>for (offset = 0; offset < length; ++(*noelements))\<close> and the purge behind
  it. The elements are kept in \<open>acc\<close>; the tape they are written to is carried along for
  its bookkeeping: a reservation of one element (24 bytes) per pass, which has to lie in
  the block, and the final \<^verbatim>\<open>tape_purge\<close>. The cursor is a natural number: a \<^verbatim>\<open>size_t\<close> cursor
  cannot wrap around while the tags it has read lie in memory. The parameter
  \<^verbatim>\<open>endianness\<close> is never read and is left out.\<close>

definition reserved :: "byte list option \<Rightarrow> nat option \<Rightarrow> nat \<Rightarrow> bool" where
  "reserved block ptr n =
     (case (block, ptr) of
        (Some mem, Some off) \<Rightarrow> off + n \<le> length mem
      | _ \<Rightarrow> False)"

function parse_loop ::
  "'z zlib \<Rightarrow> (nat \<Rightarrow> byte) \<Rightarrow> byte list \<Rightarrow> nat \<Rightarrow> nat \<Rightarrow> tape \<Rightarrow> element list
     \<Rightarrow> error + element list" where
  "parse_loop zl junk bytes len offset tape acc =
     (if offset < len
      then (case tape_push junk tape 24 of (elem_ptr, tape') \<Rightarrow>
              if \<not> reserved (elems tape') elem_ptr 24 then Inl Fault
              else (case parse_data_element zl junk bytes offset of
                      Inl e \<Rightarrow> Inl e
                    | Inr (elem, offset') \<Rightarrow>
                        parse_loop zl junk bytes len offset' tape' (acc @ [elem])))
      else (case fst (tape_purge junk tape) of
              Inl e \<Rightarrow> Inl e
            | Inr block \<Rightarrow> Inr acc))"
  by pat_completeness auto
termination
  by (relation "measure (\<lambda>(zl, junk, bytes, len, offset, tape, acc). len - offset)")
     (auto dest!: parse_data_element_advances)

text \<open>The tape is created for 16 elements. The result is the purged tape;
  \<^verbatim>\<open>*noelements\<close> is its number of elements.\<close>

definition parse_data_elements ::
  "'z zlib \<Rightarrow> (nat \<Rightarrow> byte) \<Rightarrow> byte list \<Rightarrow> nat \<Rightarrow> error + element list" where
  "parse_data_elements zl junk bytes len =
     parse_loop zl junk bytes len 0 (tape_create junk (16 * 24)) []"

definition matfile_parse ::
  "'z zlib \<Rightarrow> (nat \<Rightarrow> byte) \<Rightarrow> byte list \<Rightarrow> nat \<Rightarrow> error + element list" where
  "matfile_parse zl junk bytes len = parse_data_elements zl junk bytes len"

subsection \<open>A codec for the examples\<close>

text \<open>A table from a compressed input to its inflated bytes. The stream delivers them in
  the portions the caller leaves room for, answers \<^verbatim>\<open>Z_STREAM_END\<close> (1) with the last
  portion and \<^verbatim>\<open>Z_DATA_ERROR\<close> (-3) on an input that is not in the table; its input counts
  as consumed once everything has been delivered.\<close>

definition table_zlib :: "(byte list \<Rightarrow> byte list option) \<Rightarrow> (byte list option) zlib" where
  "table_zlib f =
     \<lparr>inflateInit = (\<lambda>next_in. (Z_OK, f next_in)),
      inflate = (\<lambda>stream n. case stream of
                   None \<Rightarrow> (- 3, [], None)
                 | Some out \<Rightarrow> (if length out \<le> n then 1 else 0, take n out, Some (drop n out))),
      avail_in = (\<lambda>stream. case stream of Some [] \<Rightarrow> 0 | _ \<Rightarrow> 1),
      inflateEnd = (\<lambda>stream. Z_OK)\<rparr>"


subsection \<open>Inputs of the examples\<close>

text \<open>A matrix payload of class \<open>c\<close>: the array flags with \<open>c\<close> in the low byte, the
  dimensions \<open>[1, 1]\<close> and the name \<^verbatim>\<open>a\<close>, padded to eight bytes.\<close>

definition class_payload :: "byte \<Rightarrow> byte list" where
  "class_payload c =
     [6, 0, 0, 0, 8, 0, 0, 0,   c, 0, 0, 0, 0, 0, 0, 0,
      5, 0, 0, 0, 8, 0, 0, 0,   1, 0, 0, 0, 1, 0, 0, 0,
      1, 0, 0, 0, 1, 0, 0, 0,   97, 0, 0, 0, 0, 0, 0, 0]"

text \<open>A matrix payload of class double with the dimensions \<open>[2, 3]\<close>, the name \<^verbatim>\<open>a\<close> and
  a real part of type \<^verbatim>\<open>MFDT_DOUBLE\<close> that declares 40 bytes.\<close>

definition mismatch_payload :: "byte list" where
  "mismatch_payload =
     [6, 0, 0, 0, 8, 0, 0, 0,   6, 0, 0, 0, 0, 0, 0, 0,
      5, 0, 0, 0, 8, 0, 0, 0,   2, 0, 0, 0, 3, 0, 0, 0,
      1, 0, 0, 0, 1, 0, 0, 0,   97, 0, 0, 0, 0, 0, 0, 0,
      9, 0, 0, 0, 40, 0, 0, 0] @ replicate 40 0"

text \<open>Arrays as \<^verbatim>\<open>parse_array\<close> leaves them before the numeric parts are read.\<close>

definition dims_2_3 :: matfile_array where
  "dims_2_3 = \<lparr>flags = 6, dims = [2, 3], name = [97, 0], nodims = 2, name_length = 1,
               pr = NullPart, pi = NullPart\<rparr>"

definition dims_overflow :: matfile_array where
  "dims_overflow = \<lparr>flags = 6, dims = [65536, 65536], name = [97, 0], nodims = 2,
                    name_length = 1, pr = NullPart, pi = NullPart\<rparr>"

text \<open>A matrix payload of class double with the dimensions \<open>[65536, 65536]\<close>, the name
  \<^verbatim>\<open>a\<close> and a real part of type \<^verbatim>\<open>MFDT_DOUBLE\<close> that declares no bytes.\<close>

definition overflow_payload :: "byte list" where
  "overflow_payload =
     [6, 0, 0, 0, 8, 0, 0, 0,   6, 0, 0, 0, 0, 0, 0, 0,
      5, 0, 0, 0, 8, 0, 0, 0,   0, 0, 1, 0, 0, 0, 1, 0,
      1, 0, 0, 0, 1, 0, 0, 0,   97, 0, 0, 0, 0, 0, 0, 0,
      9, 0, 0, 0, 0, 0, 0, 0]"

text \<open>An \<^verbatim>\<open>int8\<close> element of 64 bytes, each of them 7, and the 17 bytes zlib deflates its
  tag and payload to (level 9).\<close>

definition inflated_int8 :: "byte list" where
  "inflated_int8 = [1, 0, 0, 0, 64, 0, 0, 0] @ replicate 64 7"

definition deflated_int8 :: "byte list" where
  "deflated_int8 = [120, 218, 99, 100, 96, 96, 112, 0, 98, 118, 10, 1, 0, 74, 112, 2, 2]"

section \<open>The tape\<close>

lemma tape_push_cur_length:
  "elems (snd (tape_push junk t n)) \<noteq> None
   \<Longrightarrow> cur_length (snd (tape_push junk t n)) = cur_length t + n"
  by (auto simp: tape_push_def Let_def split: if_splits)

lemma tape_push_max_length:
  "max_length (snd (tape_push junk t n)) =
     (if cur_length t + n > max_length t then max_length t * 2 else max_length t)"
  by (simp add: tape_push_def Let_def)

lemma tape_pop_max_length: "max_length (tape_pop t n) = max_length t"
  by (simp add: tape_pop_def)

text \<open>A reservation keeps the used length within the capacity as long as one doubling
  makes room for it; purge then hands out exactly the used bytes, unless there are none.\<close>

lemma realloc_length:
  "realloc junk p n = Some block \<Longrightarrow> length block = n"
  by (auto simp: realloc_def split: option.splits if_splits)

lemma realloc_block: "n \<noteq> 0 \<Longrightarrow> realloc junk p n \<noteq> None"
  by (simp add: realloc_def split: option.splits)

lemma tape_create_wf: "tape_wf (tape_create junk n)"
  by (simp add: tape_wf_def tape_create_def)

lemma tape_pop_wf: "tape_wf t \<Longrightarrow> tape_wf (tape_pop t n)"
  unfolding tape_wf_def tape_pop_def
  by (auto simp: word_le_nat_alt word_less_nat_alt unat_sub)

lemma tape_push_wf:
  assumes wf: "tape_wf t"
      and fits: "unat (cur_length t) + unat n \<le> 2 * unat (max_length t)"
      and cap: "2 * unat (max_length t) < 2 ^ 64"
      and pos: "max_length t \<noteq> 0"
  shows "tape_wf (snd (tape_push junk t n))
         \<and> fst (tape_push junk t n) = Some (unat (cur_length t))
         \<and> cur_length (snd (tape_push junk t n)) = cur_length t + n"
proof -
  have sum: "unat (cur_length t + n) = unat (cur_length t) + unat n"
    using fits cap by (simp add: unat_add_lem [THEN iffD1])
  have dbl: "unat (max_length t * 2) = 2 * unat (max_length t)"
    using cap by (simp add: unat_mult_lem [THEN iffD1] mult.commute)
  have nz: "unat (max_length t * 2) \<noteq> 0"
    using pos dbl by (simp add: unat_eq_zero)
  obtain block where block: "elems t = Some block" "length block = unat (max_length t)"
    using wf by (auto simp: tape_wf_def)
  obtain block' where block': "realloc junk (elems t) (unat (max_length t * 2)) = Some block'"
    using realloc_block [OF nz] by blast
  have len': "length block' = unat (max_length t * 2)"
    using realloc_length [OF block'] .
  show ?thesis
    using wf fits sum dbl block block' len'
    by (auto simp: tape_wf_def tape_push_def Let_def word_le_nat_alt word_less_nat_alt)
qed

lemma tape_purge_length:
  assumes "tape_wf t" and "cur_length t \<noteq> 0"
  shows "\<exists>block. fst (tape_purge junk t) = Inr block \<and> length block = unat (cur_length t)"
proof -
  obtain block where block: "elems t = Some block" "length block = unat (max_length t)"
    and le: "cur_length t \<le> max_length t"
    using assms(1) by (auto simp: tape_wf_def)
  have nz: "unat (cur_length t) \<noteq> 0"
    using assms(2) by (simp add: unat_eq_zero)
  show ?thesis
  proof (cases "cur_length t < max_length t")
    case True
    obtain b where b: "realloc junk (elems t) (unat (cur_length t)) = Some b"
      using realloc_block [OF nz] by blast
    with True realloc_length [OF b] show ?thesis
      by (simp add: tape_purge_def)
  next
    case False
    with le have "cur_length t = max_length t" by simp
    with False block show ?thesis
      by (simp add: tape_purge_def)
  qed
qed

lemma tape_purge_empty:
  assumes "tape_wf t" and "cur_length t = 0" and "max_length t \<noteq> 0"
  shows "fst (tape_purge junk t) = Inl Fault"
  using assms
  by (auto simp: tape_wf_def tape_purge_def realloc_def word_neq_0_conv)

lemma tape_push_ok:
  assumes block: "elems t \<noteq> None"
      and pos: "max_length t \<noteq> 0"
      and cap: "2 * unat (max_length t) < 2 ^ 64"
  shows "elems (snd (tape_push junk t n)) \<noteq> None
         \<and> max_length (snd (tape_push junk t n)) \<noteq> 0
         \<and> unat (max_length (snd (tape_push junk t n))) \<le> 2 * unat (max_length t)
         \<and> cur_length (snd (tape_push junk t n)) = cur_length t + n"
proof -
  have dbl: "unat (max_length t * 2) = 2 * unat (max_length t)"
    using cap by (simp add: unat_mult_lem [THEN iffD1] mult.commute)
  have nz: "unat (max_length t * 2) \<noteq> 0"
    using pos dbl by (simp add: unat_eq_zero)
  then have nz': "max_length t * 2 \<noteq> 0"
    by (auto simp: unat_eq_zero)
  show ?thesis
    using block pos dbl nz' realloc_block [OF nz, of junk "elems t"]
    by (auto simp: tape_push_def Let_def)
qed

lemma tape_pushes_cur_length:
  assumes "elems t \<noteq> None" and "max_length t \<noteq> 0"
      and "unat (max_length t) * 2 ^ length ns < 2 ^ 64"
  shows "cur_length (tape_run junk t (map Push ns)) = cur_length t + sum_list ns"
  using assms
proof (induction ns arbitrary: t)
  case Nil
  then show ?case by (simp add: tape_run_def)
next
  case (Cons n ns)
  let ?t = "snd (tape_push junk t n)"
  have cap: "2 * unat (max_length t) < 2 ^ 64"
  proof -
    have "2 * unat (max_length t) \<le> unat (max_length t) * 2 ^ length (n # ns)"
      by simp
    with Cons.prems(3) show ?thesis by linarith
  qed
  note ok = tape_push_ok [OF Cons.prems(1) Cons.prems(2) cap, of junk n]
  have "unat (max_length ?t) * 2 ^ length ns \<le> 2 * unat (max_length t) * 2 ^ length ns"
    using ok by (intro mult_right_mono) simp_all
  also have "\<dots> < 2 ^ 64"
    using Cons.prems(3) by (simp add: mult.assoc mult.left_commute)
  finally have cap': "unat (max_length ?t) * 2 ^ length ns < 2 ^ 64" .
  have "cur_length (tape_run junk ?t (map Push ns)) = cur_length ?t + sum_list ns"
    using ok cap' by (intro Cons.IH) simp_all
  then show ?case
    using ok by (simp add: tape_run_def add.assoc)
qed

text \<open>
  \<^bold>\<open>C5\<close>. The claim: after every push and pop the used length is at most the capacity,
  and the capacity grows only by doubling, only when a reservation would exceed it.
  The capacity indeed changes in no other way (\<open>tape_push_max_length\<close>,
  \<open>tape_pop_max_length\<close>), and the bound holds while one doubling makes room
  (\<open>tape_push_wf\<close>), but \<^verbatim>\<open>tape_push\<close> doubles once and does not look at the result: on
  a tape of capacity 4 a reservation of 100 bytes leaves the capacity at 8 and the used
  length at 100.
\<close>

theorem tape_push_exceeds_capacity:
  "cur_length (tape_run junk (tape_create junk 4) [Push 100]) = 100
   \<and> max_length (tape_run junk (tape_create junk 4) [Push 100]) = 8
   \<and> \<not> cur_length (tape_run junk (tape_create junk 4) [Push 100])
         \<le> max_length (tape_run junk (tape_create junk 4) [Push 100])"
  by (simp add: tape_run_def tape_push_def tape_create_def realloc_def Let_def)

text \<open>
  \<^bold>\<open>C9\<close>. The claim: after pushes of \<open>n\<^sub>i\<close> bytes the used length is their sum, purge
  returns a buffer of exactly that length, and the tape is gone afterwards. The used
  length is the sum (\<open>tape_pushes_cur_length\<close>, in \<^verbatim>\<open>size_t\<close> arithmetic, while no doubling
  ends at a capacity of 0) and purge frees the tape, but purge shrinks the buffer only
  when the used length is below the capacity, and hands out the used bytes only when
  they are within it (\<open>tape_purge_length\<close>): after the push of 100 bytes on a tape of
  capacity 4 it hands out the 8 bytes that are allocated.
\<close>

theorem tape_purge_short_buffer:
  "cur_length (tape_run junk (tape_create junk 4) [Push 100]) = 100
   \<and> (\<exists>buffer. fst (tape_purge junk (tape_run junk (tape_create junk 4) [Push 100]))
                  = Inr buffer \<and> length buffer = 8)
   \<and> snd (tape_purge junk (tape_run junk (tape_create junk 4) [Push 100])) = None"
  by (simp add: tape_run_def tape_push_def tape_create_def tape_purge_def realloc_def Let_def)

section \<open>Small and large tags\<close>

text \<open>The two 16-bit fields of the small view are the first two pairs of bytes of the
  tag.\<close>

lemma small_size_bytes:
  "small_size (load_tag (b0 # b1 # b2 # b3 # rest)) = le_word [b0, b1]"
  unfolding small_size_def load_tag_def le32_def
  by (simp, intro bit_word_eqI) (auto simp: bit_simps dest: bit_imp_le_length)

lemma small_type_bytes:
  "small_type (load_tag (b0 # b1 # b2 # b3 # rest)) = le_word [b2, b3]"
  unfolding small_type_def load_tag_def le32_def
  by (simp, intro bit_word_eqI) (auto simp: bit_simps dest: bit_imp_le_length)

text \<open>
  \<^bold>\<open>C6\<close>. A tag is classified small exactly when both 16-bit fields of its small view,
  the size in bytes 0..1 and the type in bytes 2..3, are non-zero, and large otherwise.
  The tag \<^verbatim>\<open>[size=4][type=6][payload]\<close> is small; the large tag \<^verbatim>\<open>[type=9][size=8]\<close> is
  large.
\<close>

theorem tag_kind:
  "(matfile_is_small (load_tag (b0 # b1 # b2 # b3 # rest)) = 1)
     = ((le_word [b0, b1] :: 16 word) \<noteq> 0 \<and> (le_word [b2, b3] :: 16 word) \<noteq> 0)
   \<and> (matfile_is_large (load_tag (b0 # b1 # b2 # b3 # rest)) = 1)
     = (\<not> ((le_word [b0, b1] :: 16 word) \<noteq> 0 \<and> (le_word [b2, b3] :: 16 word) \<noteq> 0))
   \<and> matfile_is_small (load_tag [4, 0, 6, 0, p0, p1, p2, p3]) = 1
   \<and> matfile_is_large (load_tag [4, 0, 6, 0, p0, p1, p2, p3]) = 0
   \<and> matfile_is_small (load_tag [9, 0, 0, 0, 8, 0, 0, 0]) = 0
   \<and> matfile_is_large (load_tag [9, 0, 0, 0, 8, 0, 0, 0]) = 1"
  by (simp add: matfile_is_small_def matfile_is_large_def IS_SMALL_def
        small_size_bytes small_type_bytes)

text \<open>
  \<^bold>\<open>C10\<close>. \<^verbatim>\<open>matfile_is_large\<close> is the negation of \<^verbatim>\<open>matfile_is_small\<close>: on every element
  exactly one of the two is non-zero.
\<close>

theorem is_large_negates_is_small:
  "matfile_is_large e = (if matfile_is_small e = 0 then 1 else 0)
   \<and> (matfile_is_large e \<noteq> 0) = (matfile_is_small e = 0)
   \<and> (matfile_is_small e \<noteq> 0) = (matfile_is_large e = 0)"
  by (simp add: matfile_is_small_def matfile_is_large_def)

section \<open>The element parser\<close>



text \<open>The second component of a pass is the cursor of the next one.\<close>

lemma parse_loop_step:
  assumes "offset < len"
      and "tape_push junk tape 24 = (elem_ptr, tape')"
      and "reserved (elems tape') elem_ptr 24"
      and "parse_data_element zl junk bytes offset = Inr (e, offset')"
  shows "parse_loop zl junk bytes len offset tape acc
           = parse_loop zl junk bytes len offset' tape' (acc @ [e])"
  using assms by (subst parse_loop.simps) simp



text \<open>For a compressed element the byte count is not padded.\<close>

lemma compressed_element_cursor:
  assumes "read_bytes bytes offset 8 = Inr tag"
      and "large_type (load_tag tag) = MFDT_COMPRESSED"
      and "parse_data_element zl junk bytes offset = Inr (e, offset')"
  shows "offset' = offset + 8 + unat (large_size (load_tag tag))"
proof -
  have "matfile_is_small (load_tag tag) = 0"
    using assms(2) by (simp add: matfile_is_small_def IS_SMALL_def small_type_def)
  then show ?thesis
    using assms
    by (auto simp: parse_data_element_def Let_def
          split: sum.splits if_splits prod.splits error.splits)
qed

text \<open>
  \<^bold>\<open>C7\<close>. The claim: a compressed element moves the cursor by 8 plus its declared byte
  count, unpadded, and takes over type, size and payload of the element it wraps. Cursor,
  type and size are as claimed, but the payload of a wrapped element that is not a matrix
  is copied with the byte count of the compressed data: the element of 64 bytes that
  deflates to 17 bytes comes out with type \<^verbatim>\<open>MFDT_INT8\<close>, size 64 and a payload of 17 bytes.
\<close>
theorem compressed_payload_wrong_length:
  "parse_data_elements (table_zlib (Map.empty(deflated_int8 \<mapsto> inflated_int8))) junk
       ([15, 0, 0, 0, 17, 0, 0, 0] @ deflated_int8) 25
     = Inr [\<lparr>large_type = 1, large_size = 64, large_data = Data (replicate 17 7),
              large_noelements = 0\<rparr>]"
  by (simp add: parse_data_elements_def parse_data_element_def decompress_data_element_def
        inflate_rest_def purged_into_def reserved_def read_at_def write_at_def
        table_zlib_def deflated_int8_def inflated_int8_def read_bytes_def
        load_tag_def le32_def tape_create_def tape_push_def tape_pop_def tape_purge_def
        realloc_def matfile_is_small_def IS_SMALL_def small_size_def small_type_def Let_def)

text \<open>
  \<^bold>\<open>C2\<close>. The claim: when \<^verbatim>\<open>parse_array\<close> fails on the payload of a matrix element, the
  whole parse returns null. The result of \<^verbatim>\<open>parse_array\<close> is stored in the element without
  being looked at: on a matrix element of 8 zero bytes, and on one whose real part declares
  40 bytes for the dimensions \<open>[2, 3]\<close>, \<^verbatim>\<open>parse_array\<close> returns null and the parse returns
  one element whose array pointer is null.
\<close>
theorem matrix_failure_not_propagated:
  "parse_array (drop 8 [14, 0, 0, 0, 8, 0, 0, 0, 0, 0, 0, 0, 0, 0, 0, 0]) 8 = Inl Null
   \<and> parse_data_elements zl junk [14, 0, 0, 0, 8, 0, 0, 0, 0, 0, 0, 0, 0, 0, 0, 0] 16
       = Inr [\<lparr>large_type = 14, large_size = 8, large_data = NullData,
                large_noelements = 0\<rparr>]
   \<and> parse_array mismatch_payload 96 = Inl Null
   \<and> parse_data_elements zl junk ([14, 0, 0, 0, 96, 0, 0, 0] @ mismatch_payload) 104
       = Inr [\<lparr>large_type = 14, large_size = 96, large_data = NullData,
                large_noelements = 0\<rparr>]"
  by (simp add: parse_data_elements_def parse_data_element_def parse_array_def
        parse_numerical_array_def parse_numerical_part_def mismatch_payload_def
        matfile_is_numerical_def noelems_of_def data_type_size_def padding_of_def
        read_bytes_def load_tag_def le32_def le64_def matfile_is_small_def IS_SMALL_def
        small_size_def small_type_def reserved_def tape_create_def tape_push_def
        tape_purge_def realloc_def Let_def)

text \<open>
  \<^bold>\<open>C3\<close>. The claim: a large element whose declared byte count exceeds the bytes that
  remain makes the parse return null instead of reading past the end of the input.
  \<^verbatim>\<open>parse_data_elements\<close> compares nothing with \<^verbatim>\<open>length\<close> but the cursor at the head of the
  loop. With 16 bytes of input, of which the tag declares 16 as payload, it reads the 8
  bytes behind the input: it leaves the memory when the input ends there, and returns
  them as payload when the memory goes on.
\<close>
theorem truncated_element_read_past_end:
  "parse_data_elements zl junk ([1, 0, 0, 0, 16, 0, 0, 0] @ replicate 8 0) 16 = Inl Fault
   \<and> parse_data_elements zl junk
        ([1, 0, 0, 0, 16, 0, 0, 0] @ replicate 8 0 @ replicate 8 0xAA) 16
       = Inr [\<lparr>large_type = 1, large_size = 16,
                large_data = Data (replicate 8 0 @ replicate 8 0xAA),
                large_noelements = 0\<rparr>]"
  by (simp add: parse_data_elements_def parse_data_element_def read_bytes_def
        load_tag_def le32_def matfile_is_small_def IS_SMALL_def small_size_def small_type_def
        reserved_def tape_create_def tape_push_def tape_purge_def realloc_def Let_def)

text \<open>An input of no bytes leaves the tape empty: the purge asks \<^verbatim>\<open>realloc\<close> for no bytes
  and frees the block a second time.\<close>

lemma empty_input_purge:
  "parse_data_elements zl junk bytes 0 = Inl Fault"
  by (simp add: parse_data_elements_def tape_create_def tape_purge_def realloc_def)

section \<open>The numeric array assembler\<close>

text \<open>
  \<^bold>\<open>C1\<close>. The claim: \<^verbatim>\<open>parse_array\<close> returns null for the classes cell, struct, object,
  char and sparse. For these classes the \<^verbatim>\<open>switch\<close> prints its message and leaves with
  \<^verbatim>\<open>break\<close>, so the array is returned with flags, dimensions and name set and both
  numeric parts never assigned.
\<close>

theorem unsupported_class_returns_array:
  "parse_array (class_payload 1) 48
     = Inr \<lparr>flags = 1, dims = [1, 1], name = [97, 0], nodims = 2, name_length = 1,
            pr = Uninitialised, pi = Uninitialised\<rparr>
   \<and> parse_array (class_payload 2) 48
     = Inr \<lparr>flags = 2, dims = [1, 1], name = [97, 0], nodims = 2, name_length = 1,
            pr = Uninitialised, pi = Uninitialised\<rparr>
   \<and> parse_array (class_payload 3) 48
     = Inr \<lparr>flags = 3, dims = [1, 1], name = [97, 0], nodims = 2, name_length = 1,
            pr = Uninitialised, pi = Uninitialised\<rparr>
   \<and> parse_array (class_payload 4) 48
     = Inr \<lparr>flags = 4, dims = [1, 1], name = [97, 0], nodims = 2, name_length = 1,
            pr = Uninitialised, pi = Uninitialised\<rparr>
   \<and> parse_array (class_payload 5) 48
     = Inr \<lparr>flags = 5, dims = [1, 1], name = [97, 0], nodims = 2, name_length = 1,
            pr = Uninitialised, pi = Uninitialised\<rparr>"
  by (simp add: parse_array_def class_payload_def read_bytes_def load_tag_def le32_def
        le64_def padding_of_def Let_def)

text \<open>The element count is the product of the dimensions in the ring of 32-bit words;
  where the product of the dimension values fits a signed 32-bit integer, the size that
  is compared is the byte size times that product.\<close>

lemma foldl_mult_word:
  "foldl (\<lambda>noelems d. noelems * d) a ds = a * (word_of_int (prod_list (map sint ds)) :: 32 word)"
  by (induction ds arbitrary: a) (simp_all add: word_of_int_hom_syms mult.assoc)

lemma noelems_of_exact: "noelems_of ds = word_of_int (prod_list (map sint ds))"
  by (simp add: noelems_of_def foldl_mult_word)

lemma scast_noelems_exact:
  assumes "- (2 ^ 31) \<le> P" "P < 2 ^ 31"
  shows "(scast (word_of_int P :: 32 word) :: 64 word) = word_of_int P"
proof -
  have "sint (word_of_int P :: 32 word) = P"
    using assms by (simp add: signed_of_int signed_take_bit_int_eq_self)
  then show ?thesis
    by (simp add: scast_eq)
qed

lemma numerical_type_codes:
  assumes "matfile_is_numerical e \<noteq> 0"
  shows "unat (large_type e) \<in> {1, 2, 3, 4, 5, 6, 7, 9, 12, 13}"
proof -
  have "(1 \<le> unat (large_type e) \<and> unat (large_type e) \<le> 7) \<or> unat (large_type e) = 9
        \<or> unat (large_type e) = 12 \<or> unat (large_type e) = 13"
    using assms
    by (auto simp add: matfile_is_numerical_def Let_def word_le_nat_alt split: if_splits)
  then show ?thesis by auto
qed

lemma numerical_type_size:
  assumes "matfile_is_numerical e \<noteq> 0"
  shows "uint (data_type_size ! (unat (large_type e) - 1)) \<in> {1, 2, 4, 8}"
  using numerical_type_codes [OF assms] by (auto simp: data_type_size_def)

lemma mod_eq_small:
  fixes a b :: int
  assumes a: "0 \<le> a" "a < 2 ^ 32" and b: "- (2 ^ 34) \<le> b" "b < 2 ^ 34"
  shows "(a mod 2 ^ 64 = b mod 2 ^ 64) = (a = b)"
proof (cases "0 \<le> b")
  case True
  then show ?thesis using a b by simp
next
  case False
  have "b mod 2 ^ 64 = (b + 2 ^ 64) mod 2 ^ 64"
    by simp
  also have "\<dots> = b + 2 ^ 64"
    using b False by (intro mod_pos_pos_trivial) simp_all
  finally show ?thesis
    using a b False by simp
qed

lemma size_check_exact:
  fixes sz :: "32 word" and ts :: "64 word"
  assumes ts: "uint ts \<in> {1, 2, 4, 8}"
      and lo: "- (2 ^ 31) \<le> P" and hi: "P < 2 ^ 31"
  shows "((ucast sz :: 64 word) = ts * scast (word_of_int P :: 32 word)) = (uint sz = uint ts * P)"
proof -
  have sz: "0 \<le> uint sz" "uint sz < 2 ^ 32"
    using uint_lt2p [of sz] by simp_all
  have "ts * scast (word_of_int P :: 32 word) = word_of_int (uint ts) * word_of_int P"
    by (simp add: scast_noelems_exact [OF lo hi])
  also have "\<dots> = word_of_int (uint ts * P)"
    by (simp only: wi_hom_mult)
  finally have rhs: "ts * scast (word_of_int P :: 32 word) = word_of_int (uint ts * P)" .
  have lhs: "(ucast sz :: 64 word) = word_of_int (uint sz)"
    by (rule ucast_eq)
  have "((ucast sz :: 64 word) = ts * scast (word_of_int P :: 32 word))
      = (take_bit 64 (uint sz) = take_bit 64 (uint ts * P))"
    unfolding lhs rhs by (simp only: word_of_int_eq_iff len_bit0 len_num1) simp
  also have "\<dots> = (uint sz mod 2 ^ 64 = (uint ts * P) mod 2 ^ 64)"
    by (simp only: take_bit_eq_mod)
  also have "\<dots> = (uint sz = uint ts * P)"
    using ts sz lo hi by (intro mod_eq_small) auto
  finally show ?thesis .
qed

text \<open>Where the product of the dimension values fits a signed 32-bit integer, the check is
  the one the comments of \<^verbatim>\<open>parse_numerical_part\<close> announce: the part is accepted only
  when its declared size is the byte size of the type times that product, and returns
  null otherwise. Dimensions \<open>[2, 3]\<close> with a \<^verbatim>\<open>double\<close> part declared as 40 bytes fail.\<close>

lemma size_check_without_overflow:
  assumes tag: "read_bytes mem 0 8 = Inr tag"
      and num: "matfile_is_numerical (load_tag tag) \<noteq> 0"
      and nd: "unat (nodims array) \<le> length (dims array)"
      and lo: "- (2 ^ 31) \<le> prod_list (map sint (take (unat (nodims array)) (dims array)))"
      and hi: "prod_list (map sint (take (unat (nodims array)) (dims array))) < 2 ^ 31"
  shows "(parse_numerical_part array mem len = Inr (part, rest)
          \<longrightarrow> uint (large_size (load_tag tag))
              = uint (data_type_size ! (unat (large_type (load_tag tag)) - 1))
                * prod_list (map sint (take (unat (nodims array)) (dims array))))
       \<and> (uint (large_size (load_tag tag))
              \<noteq> uint (data_type_size ! (unat (large_type (load_tag tag)) - 1))
                * prod_list (map sint (take (unat (nodims array)) (dims array)))
          \<longrightarrow> parse_numerical_part array mem len = Inl Null)"
proof -
  let ?elem = "load_tag tag"
  let ?ds = "take (unat (nodims array)) (dims array)"
  let ?ts = "data_type_size ! (unat (large_type ?elem) - 1)"
  have exact: "(ucast (large_size ?elem) = ?ts * scast (noelems_of ?ds))
      = (uint (large_size ?elem) = uint ?ts * prod_list (map sint ?ds))"
    unfolding noelems_of_exact
    by (rule size_check_exact [OF numerical_type_size [OF num] lo hi])
  have nd': "\<not> length (dims array) < unat (nodims array)"
    using nd by simp
  show ?thesis
    using tag num nd' exact
    by (auto simp: parse_numerical_part_def Let_def split: if_splits sum.splits)
qed

lemma size_mismatch_example:
  "parse_numerical_part dims_2_3 ([9, 0, 0, 0, 40, 0, 0, 0] @ replicate 40 0) 48 = Inl Null"
  by (simp add: parse_numerical_part_def dims_2_3_def read_bytes_def load_tag_def le32_def
        matfile_is_numerical_def noelems_of_def data_type_size_def Let_def)

text \<open>
  \<^bold>\<open>C4\<close>. The claim: \<^verbatim>\<open>parse_numerical_part\<close> succeeds only when the declared size is the
  byte size of the type times the product of the dimension values. The product is
  accumulated in a 32-bit \<^verbatim>\<open>int\<close> with no guard against overflow: with the dimensions
  \<open>[65536, 65536]\<close> it is 0, and a \<^verbatim>\<open>double\<close> part of declared size 0 is accepted, by
  \<^verbatim>\<open>parse_numerical_part\<close> and with it by \<^verbatim>\<open>parse_array\<close>, although 8 times the product of
  the dimension values is \<open>2\<^sup>3\<^sup>5\<close>.
\<close>

theorem size_check_overflow:
  "matfile_is_numerical (load_tag [9, 0, 0, 0, 0, 0, 0, 0]) \<noteq> 0
   \<and> parse_numerical_part dims_overflow [9, 0, 0, 0, 0, 0, 0, 0] 8 = Inr (PartData [], 8)
   \<and> uint (large_size (load_tag [9, 0, 0, 0, 0, 0, 0, 0]))
       \<noteq> uint (data_type_size ! (unat (large_type (load_tag [9, 0, 0, 0, 0, 0, 0, 0])) - 1))
         * prod_list (map sint (dims dims_overflow))
   \<and> parse_array overflow_payload 56
       = Inr (dims_overflow\<lparr>pr := PartData []\<rparr>)"
  by (simp add: parse_array_def parse_numerical_array_def parse_numerical_part_def
        overflow_payload_def dims_overflow_def read_bytes_def load_tag_def le32_def le64_def
        padding_of_def matfile_is_numerical_def noelems_of_def data_type_size_def Let_def)

end
